theory Spec2Isabelle
  imports Complex_Main "HOL-Library.Multiset"
begin

section \<open>Conventions of the embedding\<close>

text \<open>
  Python floats are modelled as the reals: every arithmetic operation is the exact one,
  and the one float that is not a number, NaN (what pandas returns for the mean of an
  empty selection), is a constructor of its own. Exceptions are values of the type
  \<open>error\<close>; a function that may raise returns \<open>error + 'a\<close>, and a
  \<^verbatim>\<open>try/except\<close> of the source is a case distinction on that sum.
\<close>

datatype error = ValueError string | IndexError | LibraryError

datatype pyfloat = Num real | NaN

section \<open>Profitability calculator (src/utils/profitability\_calculator.py)\<close>

text \<open>
  Python's \<^verbatim>\<open>round(x, n)\<close> on a float: the nearest multiple of \<open>10^-n\<close>, a tie going
  to the even neighbour.
\<close>

definition round_half_even :: "real \<Rightarrow> int" where
  "round_half_even y =
     (let f = \<lfloor>y\<rfloor>; d = y - of_int f
      in if d < 1 / 2 then f
         else if 1 / 2 < d then f + 1
         else if even f then f else f + 1)"

definition py_round :: "real \<Rightarrow> nat \<Rightarrow> real" where
  "py_round x n = of_int (round_half_even (x * 10 ^ n)) / 10 ^ n"

record profitability =
  profitability_index :: real
  predicted_yield :: real
  unit_of :: string
  expected_revenue :: real
  cost :: real
  expected_profit :: real
  profit_margin :: real
  recommendation :: string

definition calculate_profitability_index ::
  "real \<Rightarrow> real \<Rightarrow> real \<Rightarrow> string \<Rightarrow> error + profitability" where
  "calculate_profitability_index predicted_yield' market_price cost' unit' =
     (if cost' \<le> 0 then Inl (ValueError ''Cost must be greater than zero'')
      else if predicted_yield' < 0 then Inl (ValueError ''Predicted yield cannot be negative'')
      else
        let expected_revenue' = predicted_yield' * market_price;
            profitability_index' = (if 0 < cost' then expected_revenue' / cost' else 0);
            expected_profit' = expected_revenue' - cost';
            profit_margin' = (if 0 < cost' then (expected_profit' / cost') * 100 else 0);
            recommendation' =
              (if 1.5 < profitability_index' then ''Highly Profitable - Strongly Recommended''
               else if 1.2 < profitability_index' then ''Profitable - Recommended''
               else if 1.0 < profitability_index' then ''Marginally Profitable - Consider''
               else if 0.8 < profitability_index' then ''Low Profitability - Risky''
               else ''Loss-Making - Not Recommended'')
        in Inr \<lparr> profitability_index = py_round profitability_index' 2,
                 predicted_yield = py_round predicted_yield' 2,
                 unit_of = unit',
                 expected_revenue = py_round expected_revenue' 2,
                 cost = py_round cost' 2,
                 expected_profit = py_round expected_profit' 2,
                 profit_margin = py_round profit_margin' 2,
                 recommendation = recommendation' \<rparr>)"

text \<open>The default of the parameter \<^verbatim>\<open>unit\<close>.\<close>

definition default_unit :: string where
  "default_unit = ''Quintals/Hectare''"


text \<open>
  \<^verbatim>\<open>list.sort(key=..., reverse=True)\<close>: Python's sort is stable, also when reversed, so
  entries with equal keys keep the order they had. That is the stable ascending sort on
  the negated key.
\<close>

definition sort_reverse :: "('a \<Rightarrow> real) \<Rightarrow> 'a list \<Rightarrow> 'a list" where
  "sort_reverse key xs = sort_key (\<lambda>x. - key x) xs"



definition get_default :: "'a option \<Rightarrow> 'a \<Rightarrow> 'a" where
  "get_default v d = (case v of Some x \<Rightarrow> x | None \<Rightarrow> d)"



section \<open>Blending engine (src/models/ensemble\_model.py, predict\_yield)\<close>

text \<open>
  The one-row frame that \<^verbatim>\<open>_prepare_input\<close> builds from the arguments. What follows
  in \<^verbatim>\<open>_prepare_input\<close> (columns the fitted model expects, the label encoder) and
  the fitted regressor itself are objects loaded from disk: a point model is given by
  whether it is trained and by the function from this frame to what
  \<^verbatim>\<open>model.predict(_prepare_input(...))[0]\<close> yields, a number or an exception.
\<close>

record input_data =
  in_Crop :: string
  in_State :: string
  in_Season :: string
  in_Year :: int
  in_Cost :: real
  in_Year_Squared :: int
  in_Cost_per_Unit :: real
  in_Production_per_Cost :: real

definition prepare_input :: "string \<Rightarrow> string \<Rightarrow> string \<Rightarrow> int \<Rightarrow> real \<Rightarrow> input_data" where
  "prepare_input crop' state' season' year' cost' =
     \<lparr> in_Crop = crop', in_State = state', in_Season = season', in_Year = year',
       in_Cost = cost', in_Year_Squared = year' ^ 2, in_Cost_per_Unit = cost' / 1000,
       in_Production_per_Cost = 0.1 \<rparr>"

record point_model =
  is_trained :: bool
  predict :: "input_data \<Rightarrow> error + real"

record ensemble =
  rf_model :: "point_model option"
  xgb_model :: "point_model option"

text \<open>The dictionary \<^verbatim>\<open>self.weights\<close> set in the constructor.\<close>

definition weights :: "string \<Rightarrow> real option" where
  "weights = map_of [(''random_forest'', 0.5), (''xgboost'', 0.5),
                     (''arima'', 0.2), (''prophet'', 0.2)]"

definition base_yield :: "string \<Rightarrow> real" where
  "base_yield crop' =
     get_default
       (map_of [(''Rice'', 40), (''Wheat'', 35), (''Cotton'', 12), (''Soybean'', 10),
                (''Sugarcane'', 70), (''Maize'', 25), (''Groundnut'', 15),
                (''Pulses'', 8), (''Oilseeds'', 12), (''Jute'', 20)] crop') 20"

text \<open>\<^verbatim>\<open>np.average(a, weights=w)\<close> and \<^verbatim>\<open>np.std(a)\<close>, the latter with numpy's default
  \<^verbatim>\<open>ddof=0\<close>: the mean of the squared deviations is taken over all \<open>n\<close> values.\<close>

definition np_average :: "real list \<Rightarrow> real list \<Rightarrow> real" where
  "np_average a w = sum_list (map2 (*) a w) / sum_list w"

definition mean :: "real list \<Rightarrow> real" where
  "mean a = sum_list a / real (length a)"

definition np_std :: "real list \<Rightarrow> real" where
  "np_std a = sqrt (mean (map (\<lambda>x. (x - mean a) ^ 2) a))"

fun join :: "string \<Rightarrow> string list \<Rightarrow> string" where
  "join sep [] = []"
| "join sep [x] = x"
| "join sep (x # y # ys) = x @ sep @ join sep (y # ys)"

record yield_result =
  yr_predicted_yield :: real
  ci_lower :: real
  ci_upper :: real
  model_used :: string
  individual_predictions :: "(string \<times> real) list"

text \<open>One guarded model call of \<^verbatim>\<open>predict_yield\<close>: the model is used when it is
  loaded and trained, and an exception leaves both lists as they were.\<close>

definition try_model ::
  "point_model option \<Rightarrow> string \<Rightarrow> input_data \<Rightarrow> real list \<times> string list
     \<Rightarrow> real list \<times> string list" where
  "try_model m name inp acc =
     (case m of
        None \<Rightarrow> acc
      | Some pm \<Rightarrow>
          if is_trained pm then
            (case predict pm inp of
               Inl e \<Rightarrow> acc
             | Inr pred \<Rightarrow> (fst acc @ [pred], snd acc @ [name]))
          else acc)"

text \<open>The two guarded calls in the order of the source, Random Forest before XGBoost,
  starting from the empty lists.\<close>

definition contributions :: "ensemble \<Rightarrow> input_data \<Rightarrow> real list \<times> string list" where
  "contributions self inp =
     try_model (xgb_model self) ''xgboost'' inp
       (try_model (rf_model self) ''random_forest'' inp ([], []))"

definition predict_yield ::
  "ensemble \<Rightarrow> string \<Rightarrow> string \<Rightarrow> string \<Rightarrow> int \<Rightarrow> real \<Rightarrow> yield_result" where
  "predict_yield self crop' state' season' year' cost' =
     (let acc = contributions self (prepare_input crop' state' season' year' cost');
          (predictions, model_names) =
             (if length (fst acc) = 0 then ([base_yield crop'], [''heuristic'']) else acc);
          weights0 = map (\<lambda>name. get_default (weights name) (1 / real (length predictions)))
                       model_names;
          weights1 = map (\<lambda>w. w / sum_list weights0) weights0;
          ensemble_pred = np_average predictions weights1;
          std_pred = (if 1 < length predictions then np_std predictions
                      else ensemble_pred * 0.1)
      in \<lparr> yr_predicted_yield = max 0 ensemble_pred,
           ci_lower = max 0 (ensemble_pred - 1.96 * std_pred),
           ci_upper = ensemble_pred + 1.96 * std_pred,
           model_used = ''Ensemble ('' @ join '', '' model_names @ '')'',
           individual_predictions = zip model_names predictions \<rparr>)"

text \<open>
  The standard deviation as the specification words it, the sample one, which divides by
  \<open>n - 1\<close>. It is not part of the program; it is what the program is compared with.
\<close>

definition sample_std :: "real list \<Rightarrow> real" where
  "sample_std a = sqrt (sum_list (map (\<lambda>x. (x - mean a) ^ 2) a) / (real (length a) - 1))"

section \<open>Historical data and series (src/models/arima\_model.py, prepare\_time\_series)\<close>

text \<open>A row of the historical dataset, and the dataset as the list of its rows.\<close>

record row =
  Crop :: string
  State :: string
  Season :: string
  Year :: int
  Quantity :: real
  Production :: real
  Cost :: real

type_synonym dataframe = "row list"

text \<open>\<^verbatim>\<open>df[(df['Crop'] == crop) & (df['State'] == state)]\<close>\<close>

definition select_pair :: "dataframe \<Rightarrow> string \<Rightarrow> string \<Rightarrow> dataframe" where
  "select_pair df crop' state' = filter (\<lambda>r. Crop r = crop' \<and> State r = state') df"

text \<open>\<^verbatim>\<open>Series.mean()\<close> of pandas: NaN on an empty selection.\<close>

definition pd_mean :: "real list \<Rightarrow> pyfloat" where
  "pd_mean a = (if a = [] then NaN else Num (mean a))"

text \<open>A series is the list of (year, mean production of the year), by ascending year.\<close>

type_synonym series = "(int \<times> real) list"

definition prepare_time_series :: "dataframe \<Rightarrow> string \<Rightarrow> string \<Rightarrow> error + series" where
  "prepare_time_series df crop' state' =
     (let filtered = select_pair df crop' state'
      in if length filtered = 0 then Inl (ValueError ''No data found'')
         else Inr (map (\<lambda>y. (y, mean (map Production (filter (\<lambda>r. Year r = y) filtered))))
                     (sort (remdups (map Year filtered)))))"

section \<open>Trend models (src/models/prophet\_model.py, src/models/arima\_model.py)\<close>

record forecast_point =
  year :: int
  predicted_production :: pyfloat
  lower_bound :: "real option"
  upper_bound :: "real option"
  unit_tons :: string

text \<open>
  The fitting and forecasting of Prophet and of statsmodels' ARIMA are library code. They
  enter as functions of the series: training succeeds or raises, and forecasting yields
  rows or raises.
  \<^item> \<open>prophet_train\<close>: \<^verbatim>\<open>prepare_prophet_data\<close> followed by \<^verbatim>\<open>ProphetForecaster.train\<close>;
  \<^item> \<open>prophet_forecast s periods\<close>: the frame of \<^verbatim>\<open>ProphetForecaster.forecast(periods, 'Y')\<close>
    as rows (year of ds, yhat, yhat\_lower, yhat\_upper);
  \<^item> \<open>arima_train\<close>: \<^verbatim>\<open>ARIMAForecaster.train\<close>, order search included;
  \<^item> \<open>arima_forecast s steps\<close>: the three arrays of \<^verbatim>\<open>ARIMAForecaster.forecast(steps)\<close>.
\<close>

record trend_lib =
  prophet_train :: "series \<Rightarrow> error + unit"
  prophet_forecast :: "series \<Rightarrow> int \<Rightarrow> error + (int \<times> real \<times> real \<times> real) list"
  arima_train :: "series \<Rightarrow> error + unit"
  arima_forecast :: "series \<Rightarrow> int \<Rightarrow> error + (real list \<times> real list \<times> real list)"

text \<open>\<^verbatim>\<open>series.index[-1]\<close>, which raises on an empty index.\<close>

definition last_year_of :: "series \<Rightarrow> error + int" where
  "last_year_of s = (if s = [] then Inl IndexError else Inr (fst (last s)))"

text \<open>\<^verbatim>\<open>DataFrame.tail(n)\<close> for a positive \<open>n\<close>.\<close>

definition tail :: "int \<Rightarrow> 'a list \<Rightarrow> 'a list" where
  "tail n xs = drop (length xs - nat n) xs"

text \<open>\<^verbatim>\<open>ProphetForecaster.predict\<close> on a forecaster that has been trained.\<close>

definition prophet_predict ::
  "trend_lib \<Rightarrow> series \<Rightarrow> int \<Rightarrow> int \<Rightarrow> error + forecast_point list" where
  "prophet_predict lib s start_year end_year =
     (case last_year_of s of
        Inl e \<Rightarrow> Inl e
      | Inr last_year \<Rightarrow>
          let periods = end_year - last_year
          in if periods \<le> 0 then Inr []
             else
               (case prophet_forecast lib s periods of
                  Inl e \<Rightarrow> Inl e
                | Inr forecast_df \<Rightarrow>
                    Inr (map (\<lambda>(y, yhat, yhat_lower, yhat_upper).
                               \<lparr> year = y, predicted_production = Num yhat,
                                 lower_bound = Some yhat_lower, upper_bound = Some yhat_upper,
                                 unit_tons = ''Tons'' \<rparr>)
                           (filter (\<lambda>(y, _). start_year \<le> y \<and> y \<le> end_year)
                              (tail periods forecast_df)))))"

text \<open>\<^verbatim>\<open>ARIMAForecaster.predict\<close> on a forecaster that has been trained: reading the
  \<open>i\<close>-th entry of an array that is too short raises.\<close>

definition arima_predict ::
  "trend_lib \<Rightarrow> series \<Rightarrow> int \<Rightarrow> int \<Rightarrow> error + forecast_point list" where
  "arima_predict lib s start_year end_year =
     (case last_year_of s of
        Inl e \<Rightarrow> Inl e
      | Inr last_year \<Rightarrow>
          let steps = end_year - last_year
          in if steps \<le> 0 then Inr []
             else
               (case arima_forecast lib s steps of
                  Inl e \<Rightarrow> Inl e
                | Inr (fc, lo, up) \<Rightarrow>
                    if length fc < nat steps \<or> length lo < nat steps \<or> length up < nat steps
                    then Inl IndexError
                    else Inr (map (\<lambda>(i, y).
                                    \<lparr> year = y, predicted_production = Num (fc ! i),
                                      lower_bound = Some (lo ! i), upper_bound = Some (up ! i),
                                      unit_tons = ''Tons'' \<rparr>)
                                (enumerate 0 [last_year + 1 .. end_year]))))"

section \<open>Forecast fallback chain (ensemble\_model.py, predict\_production\_trends)\<close>

record trend_result =
  forecast :: "forecast_point list"
  trend :: string
  tr_model_used :: string

text \<open>The float comparison \<^verbatim>\<open>a > b\<close>: false as soon as one side is NaN.\<close>

fun py_gt :: "pyfloat \<Rightarrow> pyfloat \<Rightarrow> bool" where
  "py_gt (Num a) (Num b) = (b < a)"
| "py_gt _ _ = False"

text \<open>What a model attempt returns when its list of predictions is not empty.\<close>

definition model_result :: "string \<Rightarrow> forecast_point list \<Rightarrow> trend_result" where
  "model_result name predictions =
     \<lparr> forecast = predictions,
       trend = (if py_gt (predicted_production (last predictions))
                         (predicted_production (hd predictions))
                then ''increasing'' else ''decreasing''),
       tr_model_used = name \<rparr>"

text \<open>The two inner \<^verbatim>\<open>try\<close> blocks: \<open>None\<close> when the block raised or ended without
  returning.\<close>

definition prophet_attempt :: "trend_lib \<Rightarrow> series \<Rightarrow> int \<Rightarrow> int \<Rightarrow> trend_result option" where
  "prophet_attempt lib s start_year end_year =
     (case prophet_train lib s of
        Inl e \<Rightarrow> None
      | Inr _ \<Rightarrow>
          (case prophet_predict lib s start_year end_year of
             Inl e \<Rightarrow> None
           | Inr predictions \<Rightarrow>
               if predictions \<noteq> [] then Some (model_result ''Prophet'' predictions) else None))"

definition arima_attempt :: "trend_lib \<Rightarrow> series \<Rightarrow> int \<Rightarrow> int \<Rightarrow> trend_result option" where
  "arima_attempt lib s start_year end_year =
     (case arima_train lib s of
        Inl e \<Rightarrow> None
      | Inr _ \<Rightarrow>
          (case arima_predict lib s start_year end_year of
             Inl e \<Rightarrow> None
           | Inr predictions \<Rightarrow>
               if predictions \<noteq> [] then Some (model_result ''ARIMA'' predictions) else None))"

text \<open>The code after the outer \<^verbatim>\<open>try\<close>.\<close>

definition linear_extrapolation ::
  "dataframe \<Rightarrow> string \<Rightarrow> string \<Rightarrow> int \<Rightarrow> int \<Rightarrow> trend_result" where
  "linear_extrapolation df crop' state' start_year end_year =
     (let avg0 = pd_mean (map Production (select_pair df crop' state'));
          avg_production = (if avg0 = NaN then pd_mean (map Production df) else avg0)
      in \<lparr> forecast = map (\<lambda>y. \<lparr> year = y, predicted_production = avg_production,
                                  lower_bound = None, upper_bound = None,
                                  unit_tons = ''Tons'' \<rparr>)
                         [start_year .. end_year],
           trend = ''stable'',
           tr_model_used = ''Linear Extrapolation'' \<rparr>)"

definition predict_production_trends ::
  "trend_lib \<Rightarrow> string \<Rightarrow> string \<Rightarrow> int \<Rightarrow> int \<Rightarrow> dataframe \<Rightarrow> trend_result" where
  "predict_production_trends lib crop' state' start_year end_year df =
     (case prepare_time_series df crop' state' of
        Inl e \<Rightarrow> linear_extrapolation df crop' state' start_year end_year
      | Inr s \<Rightarrow>
          (case prophet_attempt lib s start_year end_year of
             Some result \<Rightarrow> result
           | None \<Rightarrow>
               (case arima_attempt lib s start_year end_year of
                  Some result \<Rightarrow> result
                | None \<Rightarrow> linear_extrapolation df crop' state' start_year end_year)))"


section \<open>Recommendation ranker (src/api, get\_recommendations)\<close>

record recommendations_request =
  state :: string
  budget :: real
  season :: string
  top_n :: "int option"

record recommendation_entry =
  r_crop :: string
  r_rank :: nat
  r_profitability_index :: real
  r_predicted_yield :: real
  r_estimated_cost :: real
  r_expected_revenue :: real
  r_expected_profit :: real
  r_reason :: string

text \<open>\<^verbatim>\<open>Series.unique()\<close>: the distinct values in the order of their first appearance.\<close>

fun unique :: "'a list \<Rightarrow> 'a list" where
  "unique [] = []"
| "unique (x # xs) = x # unique (filter (\<lambda>y. y \<noteq> x) xs)"

text \<open>The slice \<^verbatim>\<open>xs[:n]\<close>: all of \<open>xs\<close> for \<^verbatim>\<open>None\<close>, and a negative \<open>n\<close> counts from
  the end.\<close>

definition slice_to :: "'a list \<Rightarrow> int option \<Rightarrow> 'a list" where
  "slice_to xs n =
     (case n of
        None \<Rightarrow> xs
      | Some k \<Rightarrow> if 0 \<le> k then take (nat k) xs else take (length xs - nat (- k)) xs)"

definition market_prices :: "string \<Rightarrow> real option" where
  "market_prices =
     map_of [(''Rice'', 2000), (''Wheat'', 1800), (''Cotton'', 6500), (''Soybean'', 4000),
             (''Sugarcane'', 3000), (''Maize'', 1500), (''Groundnut'', 5000),
             (''Pulses'', 6000), (''Oilseeds'', 4500), (''Jute'', 3500)]"

text \<open>The expression bound to \<^verbatim>\<open>estimated_cost\<close> in the loop.\<close>

definition estimated_cost :: "dataframe \<Rightarrow> string \<Rightarrow> recommendations_request \<Rightarrow> real" where
  "estimated_cost df crop' request =
     min (budget request)
         (if 0 < length (select_pair df crop' (state request))
          then mean (map Cost (select_pair df crop' (state request)))
          else budget request * 0.8)"

text \<open>The body of the loop for one crop; \<open>Inl\<close> is the exception that makes the loop
  \<^verbatim>\<open>continue\<close>.\<close>

definition score_crop ::
  "ensemble \<Rightarrow> dataframe \<Rightarrow> recommendations_request \<Rightarrow> string \<Rightarrow> error + recommendation_entry"
  where
  "score_crop predictor df request crop' =
     (let estimated_cost' = estimated_cost df crop' request;
          yield_result' = predict_yield predictor crop' (state request) (season request) 2024
                            estimated_cost';
          predicted_yield' = yr_predicted_yield yield_result';
          market_price = get_default (market_prices crop') 2000
      in case calculate_profitability_index predicted_yield' market_price estimated_cost'
                default_unit of
           Inl e \<Rightarrow> Inl e
         | Inr p \<Rightarrow>
             Inr \<lparr> r_crop = crop', r_rank = 0,
                   r_profitability_index = profitability_index p,
                   r_predicted_yield = predicted_yield',
                   r_estimated_cost = estimated_cost',
                   r_expected_revenue = expected_revenue p,
                   r_expected_profit = expected_profit p,
                   r_reason = recommendation p \<rparr>)"

fun score_crops ::
  "ensemble \<Rightarrow> dataframe \<Rightarrow> recommendations_request \<Rightarrow> string list \<Rightarrow> recommendation_entry list"
  where
  "score_crops predictor df request [] = []"
| "score_crops predictor df request (c # cs) =
     (case score_crop predictor df request c of
        Inl e \<Rightarrow> score_crops predictor df request cs
      | Inr r \<Rightarrow> r # score_crops predictor df request cs)"

text \<open>The sort and the numbering that follow the loop.\<close>

definition rank_recommendations :: "recommendation_entry list \<Rightarrow> recommendation_entry list" where
  "rank_recommendations recommendations =
     map (\<lambda>(i, r). r\<lparr>r_rank := i\<rparr>)
       (enumerate 1 (sort_reverse r_profitability_index recommendations))"

text \<open>The field \<^verbatim>\<open>recommendations\<close> of the response of \<^verbatim>\<open>get_recommendations\<close>, for the
  predictor and the dataset that are loaded.\<close>

definition get_recommendations ::
  "ensemble \<Rightarrow> dataframe \<Rightarrow> recommendations_request \<Rightarrow> recommendation_entry list" where
  "get_recommendations predictor df request =
     (let crops = unique (map Crop df);
          recommendations = score_crops predictor df request (take 10 crops)
      in slice_to (rank_recommendations recommendations) (top_n request))"


section \<open>Example inputs\<close>

text \<open>Concrete models, libraries and datasets on which the functions above are run.\<close>

definition constant_model :: "real \<Rightarrow> point_model" where
  "constant_model v = \<lparr> is_trained = True, predict = (\<lambda>_. Inr v) \<rparr>"

definition raising_model :: point_model where
  "raising_model = \<lparr> is_trained = True, predict = (\<lambda>_. Inl LibraryError) \<rparr>"

definition no_models :: ensemble where
  "no_models = \<lparr> rf_model = None, xgb_model = None \<rparr>"

definition example_row :: "string \<Rightarrow> string \<Rightarrow> int \<Rightarrow> real \<Rightarrow> real \<Rightarrow> row" where
  "example_row c s y p k =
     \<lparr> Crop = c, State = s, Season = ''Kharif'', Year = y, Quantity = 1,
       Production = p, Cost = k \<rparr>"

definition example_df :: dataframe where
  "example_df =
     [example_row ''Rice'' ''Punjab'' 2002 60 200,
      example_row ''Wheat'' ''Goa'' 2001 10 50,
      example_row ''Rice'' ''Punjab'' 2001 20 400,
      example_row ''Rice'' ''Punjab'' 2001 10 300]"

text \<open>A dataset of eleven crops, one row each.\<close>

definition eleven_crops :: dataframe where
  "eleven_crops =
     map (\<lambda>c. example_row c ''Punjab'' 2001 10 50)
       [''Rice'', ''Wheat'', ''Cotton'', ''Soybean'', ''Sugarcane'', ''Maize'', ''Groundnut'',
        ''Pulses'', ''Oilseeds'', ''Jute'', ''Barley'']"


definition flat_arima_lib :: "real \<Rightarrow> trend_lib" where
  "flat_arima_lib v =
     \<lparr> prophet_train = (\<lambda>_. Inl LibraryError),
       prophet_forecast = (\<lambda>_ _. Inl LibraryError),
       arima_train = (\<lambda>_. Inr ()),
       arima_forecast = (\<lambda>_ steps. Inr (replicate (nat steps) v,
                                          replicate (nat steps) (v - 1),
                                          replicate (nat steps) (v + 1))) \<rparr>"

definition example_request :: "real \<Rightarrow> int option \<Rightarrow> recommendations_request" where
  "example_request b n = \<lparr> state = ''Punjab'', budget = b, season = ''Kharif'', top_n = n \<rparr>"



section \<open>Properties of the profitability calculator\<close>






section \<open>Properties of the blending engine\<close>

lemma try_model_cases:
  "try_model m name inp acc = acc
   \<or> (\<exists>v. try_model m name inp acc = (fst acc @ [v], snd acc @ [name]))"
  by (simp add: try_model_def split: option.splits sum.splits)

lemma contributions_cases:
  "contributions self inp = ([], [])
   \<or> (\<exists>a. contributions self inp = ([a], [''random_forest'']))
   \<or> (\<exists>b. contributions self inp = ([b], [''xgboost'']))
   \<or> (\<exists>a b. contributions self inp = ([a, b], [''random_forest'', ''xgboost'']))"
  using try_model_cases [of "rf_model self" "''random_forest''" inp "([], [])"]
    try_model_cases [of "xgb_model self" "''xgboost''" inp
      "try_model (rf_model self) ''random_forest'' inp ([], [])"]
  unfolding contributions_def by auto

lemma np_std_two: "np_std [a, b] = \<bar>a - b\<bar> / 2"
proof -
  have "mean (map (\<lambda>x. (x - mean [a, b]) ^ 2) [a, b]) = ((a - b) / 2) ^ 2"
    by (simp add: mean_def power2_eq_square field_simps)
  then show ?thesis
    by (simp add: np_std_def real_sqrt_abs del: power_divide)
qed

lemma predict_yield_none:
  assumes "contributions self (prepare_input c s se y k) = ([], [])"
  shows "predict_yield self c s se y k =
      \<lparr> yr_predicted_yield = max 0 (base_yield c),
        ci_lower = max 0 (base_yield c - 1.96 * (base_yield c * 0.1)),
        ci_upper = base_yield c + 1.96 * (base_yield c * 0.1),
        model_used = ''Ensemble (heuristic)'',
        individual_predictions = [(''heuristic'', base_yield c)] \<rparr>"
  using assms
  by (simp add: predict_yield_def Let_def weights_def np_average_def get_default_def)

lemma predict_yield_one:
  assumes "contributions self (prepare_input c s se y k) = ([a], [n])"
    and "n = ''random_forest'' \<or> n = ''xgboost''"
  shows "predict_yield self c s se y k =
      \<lparr> yr_predicted_yield = max 0 a,
        ci_lower = max 0 (a - 1.96 * (a * 0.1)),
        ci_upper = a + 1.96 * (a * 0.1),
        model_used = ''Ensemble ('' @ n @ '')'',
        individual_predictions = [(n, a)] \<rparr>"
  using assms
  by (auto simp add: predict_yield_def Let_def weights_def np_average_def get_default_def)

lemma predict_yield_two:
  assumes "contributions self (prepare_input c s se y k)
             = ([a, b], [''random_forest'', ''xgboost''])"
  shows "predict_yield self c s se y k =
      \<lparr> yr_predicted_yield = max 0 ((a + b) / 2),
        ci_lower = max 0 ((a + b) / 2 - 1.96 * np_std [a, b]),
        ci_upper = (a + b) / 2 + 1.96 * np_std [a, b],
        model_used = ''Ensemble (random_forest, xgboost)'',
        individual_predictions = [(''random_forest'', a), (''xgboost'', b)] \<rparr>"
proof -
  have avg: "np_average [a, b] [1 / 2, 1 / 2] = (a + b) / 2"
    by (simp add: np_average_def field_simps)
  show ?thesis
    using assms
    by (simp add: predict_yield_def Let_def weights_def get_default_def avg)
qed

lemma base_yield_pos: "0 < base_yield c"
  by (simp add: base_yield_def get_default_def)

text \<open>
  C1 asks for lower \<le> value \<le> upper on every call. The code floors the value and the lower
  bound at 0 and leaves the upper bound as it is: with XGBoost alone predicting -5 the
  returned value is 0, the lower bound 0 and the upper bound -5.98, below the value.
\<close>

theorem predict_yield_negative_prediction:
  "predict_yield \<lparr> rf_model = None, xgb_model = Some (constant_model (- 5)) \<rparr>
       ''Rice'' ''Punjab'' ''Kharif'' 2024 80000
     = \<lparr> yr_predicted_yield = 0, ci_lower = 0, ci_upper = - 5.98,
         model_used = ''Ensemble (xgboost)'',
         individual_predictions = [(''xgboost'', - 5)] \<rparr>
   \<and> ci_upper (predict_yield \<lparr> rf_model = None, xgb_model = Some (constant_model (- 5)) \<rparr>
                  ''Rice'' ''Punjab'' ''Kharif'' 2024 80000)
       < yr_predicted_yield
           (predict_yield \<lparr> rf_model = None, xgb_model = Some (constant_model (- 5)) \<rparr>
              ''Rice'' ''Punjab'' ''Kharif'' 2024 80000)"
proof -
  have "contributions \<lparr> rf_model = None, xgb_model = Some (constant_model (- 5)) \<rparr>
          (prepare_input ''Rice'' ''Punjab'' ''Kharif'' 2024 80000) = ([- 5], [''xgboost''])"
    by (simp add: contributions_def try_model_def constant_model_def)
  from predict_yield_one [OF this] show ?thesis by simp
qed

lemma contributions_empty:
  "fst (contributions self inp) = [] \<Longrightarrow> contributions self inp = ([], [])"
  using contributions_cases [of self inp] by auto

text \<open>
  C2. When neither guarded model call contributes a prediction (the model is absent, not
  trained, or its call raised), \<open>predict_yield\<close> returns the entry of the baseline
  table for the crop, 20 for a crop that the table does not have, tagged ``heuristic'',
  with lower \<le> value \<le> upper and both value and lower not negative. The function has
  no error result: every exception of a model call is caught inside \<open>try_model\<close>.
\<close>

theorem predict_yield_heuristic_fallback:
  assumes "fst (contributions self (prepare_input c s se y k)) = []"
  shows "yr_predicted_yield (predict_yield self c s se y k) = base_yield c
     \<and> (c \<notin> {''Rice'', ''Wheat'', ''Cotton'', ''Soybean'', ''Sugarcane'', ''Maize'',
              ''Groundnut'', ''Pulses'', ''Oilseeds'', ''Jute''}
          \<longrightarrow> yr_predicted_yield (predict_yield self c s se y k) = 20)
     \<and> model_used (predict_yield self c s se y k) = ''Ensemble (heuristic)''
     \<and> individual_predictions (predict_yield self c s se y k) = [(''heuristic'', base_yield c)]
     \<and> ci_lower (predict_yield self c s se y k) \<le> yr_predicted_yield (predict_yield self c s se y k)
     \<and> yr_predicted_yield (predict_yield self c s se y k) \<le> ci_upper (predict_yield self c s se y k)
     \<and> 0 \<le> yr_predicted_yield (predict_yield self c s se y k)
     \<and> 0 \<le> ci_lower (predict_yield self c s se y k)"
proof -
  have eq: "predict_yield self c s se y k =
      \<lparr> yr_predicted_yield = max 0 (base_yield c),
        ci_lower = max 0 (base_yield c - 1.96 * (base_yield c * 0.1)),
        ci_upper = base_yield c + 1.96 * (base_yield c * 0.1),
        model_used = ''Ensemble (heuristic)'',
        individual_predictions = [(''heuristic'', base_yield c)] \<rparr>"
    by (rule predict_yield_none) (rule contributions_empty [OF assms])
  have pos: "0 < base_yield c" by (rule base_yield_pos)
  have dflt: "c \<notin> {''Rice'', ''Wheat'', ''Cotton'', ''Soybean'', ''Sugarcane'', ''Maize'',
              ''Groundnut'', ''Pulses'', ''Oilseeds'', ''Jute''} \<longrightarrow> base_yield c = 20"
    by (simp add: base_yield_def get_default_def)
  show ?thesis
    unfolding eq using pos dflt by (simp add: max_def)
qed

text \<open>The theorem on an ensemble whose Random Forest raises and whose XGBoost is absent.\<close>

theorem predict_yield_heuristic_fallback_witness:
  "fst (contributions \<lparr> rf_model = Some raising_model, xgb_model = None \<rparr>
          (prepare_input ''Rice'' ''Punjab'' ''Kharif'' 2024 80000)) = []
   \<and> yr_predicted_yield (predict_yield \<lparr> rf_model = Some raising_model, xgb_model = None \<rparr>
        ''Rice'' ''Punjab'' ''Kharif'' 2024 80000) = 40
   \<and> model_used (predict_yield \<lparr> rf_model = Some raising_model, xgb_model = None \<rparr>
        ''Rice'' ''Punjab'' ''Kharif'' 2024 80000) = ''Ensemble (heuristic)''"
proof -
  have h: "fst (contributions \<lparr> rf_model = Some raising_model, xgb_model = None \<rparr>
          (prepare_input ''Rice'' ''Punjab'' ''Kharif'' 2024 80000)) = []"
    by (simp add: contributions_def try_model_def raising_model_def)
  show ?thesis
    using h predict_yield_heuristic_fallback [OF h]
    by (simp add: base_yield_def get_default_def)
qed

text \<open>
  C4, as the code has it. One or two predictions contribute. With two, a and b, whose
  blended value is not negative, the value is their mean and the interval is
  value \<plusminus> 1.96 times numpy's standard deviation of the two, the population one
  (\<open>|a - b| / 2\<close>), with the lower bound floored at 0. With one prediction that is not
  negative, from a model or from the baseline table, the interval is
  value \<plusminus> 1.96 * (0.1 * value).
\<close>

theorem predict_yield_interval:
  "((\<exists>n a. individual_predictions (predict_yield self c s se y k) = [(n, a)])
      \<or> (\<exists>a b. individual_predictions (predict_yield self c s se y k)
                  = [(''random_forest'', a), (''xgboost'', b)]))
   \<and> (\<forall>n1 a n2 b.
         individual_predictions (predict_yield self c s se y k) = [(n1, a), (n2, b)]
           \<and> 0 \<le> a + b
         \<longrightarrow> yr_predicted_yield (predict_yield self c s se y k) = (a + b) / 2
           \<and> ci_lower (predict_yield self c s se y k)
               = max 0 (yr_predicted_yield (predict_yield self c s se y k)
                          - 1.96 * np_std [a, b])
           \<and> ci_upper (predict_yield self c s se y k)
               = yr_predicted_yield (predict_yield self c s se y k) + 1.96 * np_std [a, b]
           \<and> np_std [a, b] = \<bar>a - b\<bar> / 2)
   \<and> (\<forall>n a.
         individual_predictions (predict_yield self c s se y k) = [(n, a)] \<and> 0 \<le> a
         \<longrightarrow> yr_predicted_yield (predict_yield self c s se y k) = a
           \<and> ci_lower (predict_yield self c s se y k)
               = yr_predicted_yield (predict_yield self c s se y k)
                 - 1.96 * (0.1 * yr_predicted_yield (predict_yield self c s se y k))
           \<and> ci_upper (predict_yield self c s se y k)
               = yr_predicted_yield (predict_yield self c s se y k)
                 + 1.96 * (0.1 * yr_predicted_yield (predict_yield self c s se y k)))"
proof -
  let ?inp = "prepare_input c s se y k"
  consider (none) "contributions self ?inp = ([], [])"
    | (rf) a where "contributions self ?inp = ([a], [''random_forest''])"
    | (xgb) b where "contributions self ?inp = ([b], [''xgboost''])"
    | (both) a b where "contributions self ?inp = ([a, b], [''random_forest'', ''xgboost''])"
    using contributions_cases [of self ?inp] by blast
  then show ?thesis
  proof cases
    case none
    show ?thesis
      unfolding predict_yield_none [OF none]
      using base_yield_pos [of c] by (simp add: max_def)
  next
    case rf
    show ?thesis
      unfolding predict_yield_one [OF rf, simplified]
      by (simp add: max_def)
  next
    case xgb
    show ?thesis
      unfolding predict_yield_one [OF xgb, simplified]
      by (simp add: max_def)
  next
    case both
    show ?thesis
      unfolding predict_yield_two [OF both]
      by (simp add: max_def np_std_two)
  qed
qed

text \<open>The theorem on two models that predict 10 and 20, and on XGBoost alone predicting 30.\<close>

theorem predict_yield_interval_witness:
  "individual_predictions
      (predict_yield \<lparr> rf_model = Some (constant_model 10), xgb_model = Some (constant_model 20) \<rparr>
         ''Rice'' ''Punjab'' ''Kharif'' 2024 80000)
     = [(''random_forest'', 10), (''xgboost'', 20)]
   \<and> (0::real) \<le> 10 + 20
   \<and> yr_predicted_yield
      (predict_yield \<lparr> rf_model = Some (constant_model 10), xgb_model = Some (constant_model 20) \<rparr>
         ''Rice'' ''Punjab'' ''Kharif'' 2024 80000) = 15
   \<and> ci_lower
      (predict_yield \<lparr> rf_model = Some (constant_model 10), xgb_model = Some (constant_model 20) \<rparr>
         ''Rice'' ''Punjab'' ''Kharif'' 2024 80000) = 5.2
   \<and> ci_upper
      (predict_yield \<lparr> rf_model = Some (constant_model 10), xgb_model = Some (constant_model 20) \<rparr>
         ''Rice'' ''Punjab'' ''Kharif'' 2024 80000) = 24.8
   \<and> individual_predictions
      (predict_yield \<lparr> rf_model = None, xgb_model = Some (constant_model 30) \<rparr>
         ''Rice'' ''Punjab'' ''Kharif'' 2024 80000) = [(''xgboost'', 30)]
   \<and> ci_lower
      (predict_yield \<lparr> rf_model = None, xgb_model = Some (constant_model 30) \<rparr>
         ''Rice'' ''Punjab'' ''Kharif'' 2024 80000) = 24.12
   \<and> ci_upper
      (predict_yield \<lparr> rf_model = None, xgb_model = Some (constant_model 30) \<rparr>
         ''Rice'' ''Punjab'' ''Kharif'' 2024 80000) = 35.88"
proof -
  let ?e2 = "\<lparr> rf_model = Some (constant_model 10), xgb_model = Some (constant_model 20) \<rparr>"
  let ?e1 = "\<lparr> rf_model = None, xgb_model = Some (constant_model 30) \<rparr>"
  let ?inp = "prepare_input ''Rice'' ''Punjab'' ''Kharif'' 2024 80000"
  have c2: "contributions ?e2 ?inp = ([10, 20], [''random_forest'', ''xgboost''])"
    by (simp add: contributions_def try_model_def constant_model_def)
  have c1: "contributions ?e1 ?inp = ([30], [''xgboost''])"
    by (simp add: contributions_def try_model_def constant_model_def)
  have i2: "individual_predictions (predict_yield ?e2 ''Rice'' ''Punjab'' ''Kharif'' 2024 80000)
              = [(''random_forest'', 10), (''xgboost'', 20)]"
    by (simp add: predict_yield_two [OF c2])
  have i1: "individual_predictions (predict_yield ?e1 ''Rice'' ''Punjab'' ''Kharif'' 2024 80000)
              = [(''xgboost'', 30)]"
    by (simp add: predict_yield_one [OF c1])
  show ?thesis
    using predict_yield_interval [of ?e2 "''Rice''" "''Punjab''" "''Kharif''" 2024 80000]
      predict_yield_interval [of ?e1 "''Rice''" "''Punjab''" "''Kharif''" 2024 80000]
    unfolding i2 i1 by simp
qed

text \<open>
  C4 as the specification states it takes the sample standard deviation. For the two
  predictions 10 and 20 the code returns the upper bound 24.8, which is
  15 + 1.96 * 5, and not 15 + 1.96 times the sample standard deviation of 10 and 20.
\<close>

theorem predict_yield_sample_std_counterexample:
  "ci_upper
      (predict_yield \<lparr> rf_model = Some (constant_model 10), xgb_model = Some (constant_model 20) \<rparr>
         ''Rice'' ''Punjab'' ''Kharif'' 2024 80000) = 24.8
   \<and> yr_predicted_yield
      (predict_yield \<lparr> rf_model = Some (constant_model 10), xgb_model = Some (constant_model 20) \<rparr>
         ''Rice'' ''Punjab'' ''Kharif'' 2024 80000) + 1.96 * sample_std [10, 20] \<noteq> 24.8"
proof -
  let ?e2 = "\<lparr> rf_model = Some (constant_model 10), xgb_model = Some (constant_model 20) \<rparr>"
  let ?inp = "prepare_input ''Rice'' ''Punjab'' ''Kharif'' 2024 80000"
  have c2: "contributions ?e2 ?inp = ([10, 20], [''random_forest'', ''xgboost''])"
    by (simp add: contributions_def try_model_def constant_model_def)
  have s: "sample_std [10, 20] = sqrt 50"
    by (simp add: sample_std_def mean_def)
  have "sqrt 25 < sqrt 50" by (simp only: real_sqrt_less_iff)
  moreover have "sqrt 25 = 5"
    using real_sqrt_abs [of 5] by simp
  ultimately have "5 < sqrt 50" by simp
  then show ?thesis
    by (simp add: predict_yield_two [OF c2] np_std_two s)
qed

section \<open>Properties of the forecast fallback chain\<close>

lemma prepare_time_series_fails_iff:
  "isl (prepare_time_series df c st) \<longleftrightarrow> select_pair df c st = []"
  by (simp add: prepare_time_series_def Let_def)

lemma sort_remdups_ne: "sort (remdups xs) = [] \<longleftrightarrow> xs = []"
proof
  assume "sort (remdups xs) = []"
  then have "set (sort (remdups xs)) = {}" by (simp only: set_empty)
  then show "xs = []" by simp
qed simp

lemma prepare_time_series_years:
  assumes "prepare_time_series df c st = Inr s"
  shows "map fst s = sort (remdups (map Year (select_pair df c st)))"
    and "select_pair df c st \<noteq> []" and "s \<noteq> []"
proof -
  from assms show ne: "select_pair df c st \<noteq> []"
    by (auto simp: prepare_time_series_def Let_def split: if_splits)
  from assms ne
  have s: "s = map (\<lambda>y. (y, mean (map Production
                 (filter (\<lambda>r. Year r = y) (select_pair df c st)))))
               (sort (remdups (map Year (select_pair df c st))))"
    by (auto simp: prepare_time_series_def Let_def split: if_splits)
  show "map fst s = sort (remdups (map Year (select_pair df c st)))"
    by (subst s) (simp add: comp_def)
  have "sort (remdups (map Year (select_pair df c st))) \<noteq> []"
    using ne by (simp add: sort_remdups_ne)
  then show "s \<noteq> []" by (subst s) simp
qed

lemma last_sorted_Max:
  fixes xs :: "int list"
  assumes "sorted xs" and "xs \<noteq> []"
  shows "last xs = Max (set xs)"
proof -
  have "\<forall>x\<in>set xs. x \<le> last xs"
    using assms
  proof (induction xs)
    case Nil
    then show ?case by simp
  next
    case (Cons a xs)
    then show ?case by (cases xs) auto
  qed
  moreover have "last xs \<in> set xs" using assms(2) by simp
  ultimately show ?thesis by (intro Max_eqI [symmetric]) auto
qed

lemma last_year_is_Max:
  assumes "prepare_time_series df c st = Inr s"
  shows "fst (last s) = Max (Year ` set (select_pair df c st))"
proof -
  note ys = prepare_time_series_years [OF assms]
  have "fst (last s) = last (map fst s)"
    using ys(3) by (simp add: last_map)
  also have "\<dots> = Max (set (sort (remdups (map Year (select_pair df c st)))))"
    unfolding ys(1) using ys(2) by (intro last_sorted_Max) (simp_all add: sort_remdups_ne)
  finally show ?thesis by simp
qed

lemma linear_extrapolation_years:
  "map year (forecast (linear_extrapolation df c st sy ey)) = [sy..ey]"
  by (simp add: linear_extrapolation_def Let_def comp_def)

lemma linear_extrapolation_tags:
  "trend (linear_extrapolation df c st sy ey) = ''stable''"
  "tr_model_used (linear_extrapolation df c st sy ey) = ''Linear Extrapolation''"
  by (simp_all add: linear_extrapolation_def Let_def)



lemma prophet_attempt_None:
  "isl (prophet_train lib s) \<or> isl (prophet_predict lib s sy ey)
     \<or> prophet_predict lib s sy ey = Inr [] \<Longrightarrow>
   prophet_attempt lib s sy ey = None"
  by (auto simp: prophet_attempt_def split: sum.splits)


lemma arima_attempt_None:
  "isl (arima_train lib s) \<or> isl (arima_predict lib s sy ey)
     \<or> arima_predict lib s sy ey = Inr [] \<Longrightarrow>
   arima_attempt lib s sy ey = None"
  by (auto simp: arima_attempt_def split: sum.splits)




text \<open>
  C5 as the specification states it promises no forecast points for years already
  observed. The series of (Rice, Punjab) in the example dataset ends in 2002; a request
  for 2001 to 2002 returns points for 2001 and 2002, from the linear extrapolation.
\<close>

theorem observed_years_counterexample:
  "map_sum id (fst \<circ> last) (prepare_time_series example_df ''Rice'' ''Punjab'') = Inr 2002
   \<and> map year (forecast
        (predict_production_trends (flat_arima_lib 7) ''Rice'' ''Punjab'' 2001 2002 example_df))
       = [2001, 2002]
   \<and> tr_model_used
        (predict_production_trends (flat_arima_lib 7) ''Rice'' ''Punjab'' 2001 2002 example_df)
       = ''Linear Extrapolation''"
  by code_simp

text \<open>
  C6 asks for ``stable'' when the last forecast value equals the first. ARIMA forecasting
  the same value 7 for 2003 and for 2004 is reported as ``decreasing'': the model
  branches choose between ``increasing'' and ``decreasing'' only.
\<close>

theorem flat_model_forecast_trend:
  "predict_production_trends (flat_arima_lib 7) ''Rice'' ''Punjab'' 2003 2004 example_df
     = \<lparr> forecast =
           [\<lparr> year = 2003, predicted_production = Num 7, lower_bound = Some 6,
              upper_bound = Some 8, unit_tons = ''Tons'' \<rparr>,
            \<lparr> year = 2004, predicted_production = Num 7, lower_bound = Some 6,
              upper_bound = Some 8, unit_tons = ''Tons'' \<rparr>],
         trend = ''decreasing'', tr_model_used = ''ARIMA'' \<rparr>"
  by code_simp

text \<open>
  C5, as the code has it. When the pair has a series and the end year is not after its
  last year (the greatest year among the rows of the pair), Prophet's and ARIMA's
  \<open>predict\<close> both return the empty list, whatever the library does, and
  \<open>predict_production_trends\<close> returns the linear extrapolation: one point for each
  year from the start year to the end year, all of them years already observed or
  earlier, and no point only when the end year is before the start year.
\<close>

theorem observed_years_linear_extrapolation:
  assumes "prepare_time_series df c st = Inr s" and "ey \<le> fst (last s)"
  shows "fst (last s) = Max (Year ` set (select_pair df c st))
     \<and> prophet_predict lib s sy ey = Inr []
     \<and> arima_predict lib s sy ey = Inr []
     \<and> predict_production_trends lib c st sy ey df = linear_extrapolation df c st sy ey
     \<and> tr_model_used (predict_production_trends lib c st sy ey df) = ''Linear Extrapolation''
     \<and> map year (forecast (predict_production_trends lib c st sy ey df)) = [sy..ey]
     \<and> (forecast (predict_production_trends lib c st sy ey df) = [] \<longleftrightarrow> ey < sy)"
proof -
  have ne: "s \<noteq> []" by (rule prepare_time_series_years(3) [OF assms(1)])
  have pp: "prophet_predict lib s sy ey = Inr []"
    using ne assms(2) by (simp add: prophet_predict_def last_year_of_def)
  have ap: "arima_predict lib s sy ey = Inr []"
    using ne assms(2) by (simp add: arima_predict_def last_year_of_def)
  have r: "predict_production_trends lib c st sy ey df = linear_extrapolation df c st sy ey"
    by (simp add: predict_production_trends_def assms(1)
          prophet_attempt_None pp arima_attempt_None ap)
  have e: "forecast (linear_extrapolation df c st sy ey) = [] \<longleftrightarrow> ey < sy"
  proof -
    have "forecast (linear_extrapolation df c st sy ey) = []
            \<longleftrightarrow> map year (forecast (linear_extrapolation df c st sy ey)) = []"
      by simp
    also have "\<dots> \<longleftrightarrow> [sy..ey] = []"
      by (simp only: linear_extrapolation_years)
    also have "\<dots> \<longleftrightarrow> ey < sy"
      by (simp add: upto_Nil)
    finally show ?thesis .
  qed
  show ?thesis
    using last_year_is_Max [OF assms(1)] pp ap e
    by (simp add: r linear_extrapolation_tags linear_extrapolation_years)
qed

text \<open>The theorem on the example dataset, for the years 2001 to 2002.\<close>

theorem observed_years_linear_extrapolation_witness:
  "prepare_time_series example_df ''Rice'' ''Punjab'' = Inr [(2001, 15), (2002, 60)]
   \<and> (2002 :: int) \<le> fst (last [(2001, 15 :: real), (2002, 60)])
   \<and> arima_predict (flat_arima_lib 7) [(2001, 15), (2002, 60)] 2001 2002 = Inr []
   \<and> tr_model_used
        (predict_production_trends (flat_arima_lib 7) ''Rice'' ''Punjab'' 2001 2002 example_df)
       = ''Linear Extrapolation''
   \<and> map year (forecast
        (predict_production_trends (flat_arima_lib 7) ''Rice'' ''Punjab'' 2001 2002 example_df))
       = [2001, 2002]"
proof -
  have s: "prepare_time_series example_df ''Rice'' ''Punjab'' = Inr [(2001, 15), (2002, 60)]"
    by code_simp
  have l: "(2002 :: int) \<le> fst (last [(2001, 15 :: real), (2002, 60)])"
    by simp
  have u: "[2001..2002] = [2001, 2002 :: int]" by code_simp
  show ?thesis
    using observed_years_linear_extrapolation [OF s l, of "flat_arima_lib 7" 2001] s l u
    by (simp add: linear_extrapolation_tags linear_extrapolation_years)
qed

section \<open>Properties of the recommendation ranker\<close>



lemma sort_reverse_stable:
  "filter (\<lambda>x. key x = k) (sort_reverse key xs) = filter (\<lambda>x. key x = k) xs"
  using sort_key_stable [of "\<lambda>x. - key x" "- k" xs] by (simp add: sort_reverse_def)




lemma slice_to_take: "\<exists>m. slice_to xs n = take m xs"
proof (cases n)
  case None
  then have "slice_to xs n = take (length xs) xs" by (simp add: slice_to_def)
  then show ?thesis ..
next
  case (Some k)
  then show ?thesis by (auto simp: slice_to_def)
qed





lemma rank_recommendations_length: "length (rank_recommendations rs) = length rs"
  by (simp add: rank_recommendations_def sort_reverse_def)













lemma score_crop_fields:
  "score_crop predictor df request c = Inr r \<Longrightarrow>
   r_crop r = c \<and> r_estimated_cost r = estimated_cost df c request"
  by (auto simp: score_crop_def Let_def split: sum.splits)

lemma score_crops_fields:
  "r \<in> set (score_crops predictor df request cs) \<Longrightarrow>
   r_crop r \<in> set cs \<and> r_estimated_cost r = estimated_cost df (r_crop r) request"
proof (induction cs)
  case Nil
  then show ?case by simp
next
  case (Cons c cs)
  show ?case
  proof (cases "score_crop predictor df request c")
    case (Inl e)
    with Cons show ?thesis by simp
  next
    case (Inr r0)
    with Cons score_crop_fields [OF Inr] show ?thesis by auto
  qed
qed

lemma score_crops_length: "length (score_crops predictor df request cs) \<le> length cs"
  by (induction cs) (auto split: sum.splits)

lemma ranked_origin:
  assumes "r \<in> set (map (\<lambda>(i, r). r\<lparr>r_rank := i\<rparr>) (enumerate n xs))"
  shows "\<exists>r0\<in>set xs. \<exists>i. r = r0\<lparr>r_rank := i\<rparr>"
proof -
  from assms have "r \<in> (\<lambda>(i, r). r\<lparr>r_rank := i\<rparr>) ` set (enumerate n xs)"
    by (simp only: set_map)
  then obtain p where p: "p \<in> set (enumerate n xs)"
    and r: "r = (\<lambda>(i, r). r\<lparr>r_rank := i\<rparr>) p"
    by (rule imageE) 
  obtain i r0 where pe: "p = (i, r0)" by (cases p)
  from p have "n \<le> i \<and> i < length xs + n \<and> xs ! (i - n) = r0"
    unfolding pe by (simp add: in_set_enumerate_eq)
  then have "i - n < length xs" and "xs ! (i - n) = r0" by auto
  then have "r0 \<in> set xs" using nth_mem [of "i - n" xs] by simp
  moreover have "r = r0\<lparr>r_rank := i\<rparr>" by (simp add: r pe)
  ultimately show ?thesis by (intro bexI exI)
qed

lemma rank_recommendations_origin:
  assumes "r \<in> set (rank_recommendations rs)"
  shows "\<exists>r0\<in>set rs. \<exists>i. r = r0\<lparr>r_rank := i\<rparr>"
proof -
  from assms
  have "r \<in> set (map (\<lambda>(i, r). r\<lparr>r_rank := i\<rparr>)
                   (enumerate 1 (sort_reverse r_profitability_index rs)))"
    by (simp only: rank_recommendations_def)
  from ranked_origin [OF this] obtain r0 i
    where m: "r0 \<in> set (sort_reverse r_profitability_index rs)"
      and r: "r = r0\<lparr>r_rank := i\<rparr>"
    by (elim bexE exE)
  have "set (sort_reverse r_profitability_index rs) = set rs"
    by (simp add: sort_reverse_def)
  with m have "r0 \<in> set rs" by simp
  with r show ?thesis by (intro bexI exI)
qed

lemma slice_to_subset: "set (slice_to xs n) \<subseteq> set xs"
proof -
  obtain m where "slice_to xs n = take m xs"
    using slice_to_take [of xs n] by (elim exE)
  then show ?thesis by (simp add: set_take_subset)
qed

lemma slice_to_length: "length (slice_to xs n) \<le> length xs"
proof -
  obtain m where "slice_to xs n = take m xs"
    using slice_to_take [of xs n] by (elim exE)
  then show ?thesis by simp
qed

lemma get_recommendations_origin:
  assumes "r \<in> set (get_recommendations predictor df request)"
  shows "r_crop r \<in> set (take 10 (unique (map Crop df)))
     \<and> r_estimated_cost r = estimated_cost df (r_crop r) request"
proof -
  let ?cands = "score_crops predictor df request (take 10 (unique (map Crop df)))"
  have "set (get_recommendations predictor df request) \<subseteq> set (rank_recommendations ?cands)"
    unfolding get_recommendations_def Let_def by (rule slice_to_subset)
  with assms have "r \<in> set (rank_recommendations ?cands)" by (rule rev_subsetD)
  from rank_recommendations_origin [OF this]
  obtain r0 i where r0: "r0 \<in> set ?cands" and r: "r = r0\<lparr>r_rank := i\<rparr>"
    by (elim bexE exE)
  from score_crops_fields [OF r0] show ?thesis by (simp add: r)
qed

lemma set_unique: "set (unique xs) = set xs"
proof (induction xs rule: unique.induct)
  case 1
  then show ?case by simp
next
  case (2 x xs)
  have "set (unique (x # xs)) = insert x (set (unique (filter (\<lambda>y. y \<noteq> x) xs)))"
    by simp
  also have "\<dots> = insert x (set (filter (\<lambda>y. y \<noteq> x) xs))"
    by (simp only: "2.IH")
  also have "\<dots> = set (x # xs)" by auto
  finally show ?case .
qed

lemma distinct_unique: "distinct (unique xs)"
proof (induction xs rule: unique.induct)
  case 1
  then show ?case by simp
next
  case (2 x xs)
  have "x \<notin> set (unique (filter (\<lambda>y. y \<noteq> x) xs))"
    by (simp add: set_unique)
  with "2.IH" show ?case by simp
qed

lemma get_recommendations_length: "length (get_recommendations predictor df request) \<le> 10"
proof -
  let ?cands = "score_crops predictor df request (take 10 (unique (map Crop df)))"
  have "length (get_recommendations predictor df request)
          \<le> length (rank_recommendations ?cands)"
    unfolding get_recommendations_def Let_def by (rule slice_to_length)
  also have "\<dots> = length ?cands" by (rule rank_recommendations_length)
  also have "\<dots> \<le> length (take 10 (unique (map Crop df)))" by (rule score_crops_length)
  also have "\<dots> \<le> 10" by simp
  finally show ?thesis .
qed

text \<open>
  C9 as the specification states it gives 80% of the budget when the historical mean cost
  is above the budget. In the example dataset the mean cost of (Rice, Punjab) is 300; with
  a budget of 100 the estimated cost is 100, the budget itself, and not 80.
\<close>

theorem estimated_cost_above_budget_counterexample:
  "mean (map Cost (select_pair example_df ''Rice'' ''Punjab'')) = 300
   \<and> budget (example_request 100 (Some 5)) = 100
   \<and> estimated_cost example_df ''Rice'' (example_request 100 (Some 5)) = 100
   \<and> estimated_cost example_df ''Rice'' (example_request 100 (Some 5))
       \<noteq> 0.8 * budget (example_request 100 (Some 5))"
  by code_simp

text \<open>
  C9, as the code has it. The estimated cost of a crop is the minimum of the budget and
  a base value: the historical mean cost when the (crop, state) pair has rows and that
  mean is at most the budget, the budget itself when the mean is above the budget, and
  80% of the budget when the pair has no rows and the budget is not negative. Every
  returned recommendation carries that estimate for its crop.
\<close>

theorem estimated_cost_cases:
  "(select_pair df c (state request) \<noteq> []
      \<and> mean (map Cost (select_pair df c (state request))) \<le> budget request
     \<longrightarrow> estimated_cost df c request = mean (map Cost (select_pair df c (state request))))
   \<and> (select_pair df c (state request) \<noteq> []
      \<and> budget request < mean (map Cost (select_pair df c (state request)))
     \<longrightarrow> estimated_cost df c request = budget request)
   \<and> (select_pair df c (state request) = [] \<and> 0 \<le> budget request
     \<longrightarrow> estimated_cost df c request = 0.8 * budget request)
   \<and> (\<forall>r\<in>set (get_recommendations predictor df request).
         r_estimated_cost r = estimated_cost df (r_crop r) request)"
proof (intro conjI impI ballI)
  assume "select_pair df c (state request) \<noteq> []
      \<and> mean (map Cost (select_pair df c (state request))) \<le> budget request"
  then show "estimated_cost df c request = mean (map Cost (select_pair df c (state request)))"
    by (simp add: estimated_cost_def min_def)
next
  assume "select_pair df c (state request) \<noteq> []
      \<and> budget request < mean (map Cost (select_pair df c (state request)))"
  then show "estimated_cost df c request = budget request"
    by (simp add: estimated_cost_def min_def)
next
  assume "select_pair df c (state request) = [] \<and> 0 \<le> budget request"
  then show "estimated_cost df c request = 0.8 * budget request"
    by (simp add: estimated_cost_def min_def)
next
  fix r
  assume "r \<in> set (get_recommendations predictor df request)"
  then show "r_estimated_cost r = estimated_cost df (r_crop r) request"
    by (simp add: get_recommendations_origin)
qed

text \<open>The theorem on the example dataset: Rice has rows in Punjab with mean cost 300,
  Wheat has none; budgets 500 and 100.\<close>

theorem estimated_cost_cases_witness:
  "select_pair example_df ''Rice'' (state (example_request 500 None)) \<noteq> []
   \<and> mean (map Cost (select_pair example_df ''Rice'' (state (example_request 500 None))))
       \<le> budget (example_request 500 None)
   \<and> estimated_cost example_df ''Rice'' (example_request 500 None) = 300
   \<and> budget (example_request 100 None)
       < mean (map Cost (select_pair example_df ''Rice'' (state (example_request 100 None))))
   \<and> estimated_cost example_df ''Rice'' (example_request 100 None) = 100
   \<and> select_pair example_df ''Wheat'' (state (example_request 100 None)) = []
   \<and> 0 \<le> budget (example_request 100 None)
   \<and> estimated_cost example_df ''Wheat'' (example_request 100 None) = 80"
proof -
  have m: "mean (map Cost (select_pair example_df ''Rice'' ''Punjab'')) = 300"
    and n: "select_pair example_df ''Rice'' ''Punjab'' \<noteq> []"
    and w: "select_pair example_df ''Wheat'' ''Punjab'' = []"
    by code_simp+
  have rq: "state (example_request b k) = ''Punjab''" "budget (example_request b k) = b"
    for b k
    by (simp_all add: example_request_def)
  show ?thesis
    using estimated_cost_cases [of example_df "''Rice''" "example_request 500 None" no_models]
      estimated_cost_cases [of example_df "''Rice''" "example_request 100 None" no_models]
      estimated_cost_cases [of example_df "''Wheat''" "example_request 100 None" no_models]
    by (simp add: rq m n w)
qed

text \<open>
  C10. Only the first ten distinct crops of the dataset, in the order of their first
  appearance, are scored: every returned recommendation is for one of them, at most ten
  recommendations are returned, and a crop that stands at position ten or later among
  the distinct crops is in no returned recommendation, whatever the top-N.
\<close>

theorem only_first_ten_crops_scored:
  "set (map r_crop (get_recommendations predictor df request))
     \<subseteq> set (take 10 (unique (map Crop df)))
   \<and> length (get_recommendations predictor df request) \<le> 10
   \<and> distinct (unique (map Crop df))
   \<and> set (unique (map Crop df)) = set (map Crop df)
   \<and> (\<forall>i. 10 \<le> i \<and> i < length (unique (map Crop df))
         \<longrightarrow> unique (map Crop df) ! i
               \<notin> set (map r_crop (get_recommendations predictor df request)))"
proof (intro conjI allI impI)
  show sub: "set (map r_crop (get_recommendations predictor df request))
     \<subseteq> set (take 10 (unique (map Crop df)))"
  proof
    fix c
    assume "c \<in> set (map r_crop (get_recommendations predictor df request))"
    then obtain r where "r \<in> set (get_recommendations predictor df request)"
      and "c = r_crop r"
      by (auto simp only: set_map)
    then show "c \<in> set (take 10 (unique (map Crop df)))"
      by (simp add: get_recommendations_origin)
  qed
  show "length (get_recommendations predictor df request) \<le> 10"
    by (rule get_recommendations_length)
  show d: "distinct (unique (map Crop df))" by (rule distinct_unique)
  show "set (unique (map Crop df)) = set (map Crop df)" by (rule set_unique)
  fix i
  assume i: "10 \<le> i \<and> i < length (unique (map Crop df))"
  let ?u = "unique (map Crop df)"
  have "?u ! i \<notin> set (take 10 ?u)"
  proof
    assume "?u ! i \<in> set (take 10 ?u)"
    then obtain j where j: "j < length (take 10 ?u)" and e: "take 10 ?u ! j = ?u ! i"
      by (auto simp only: in_set_conv_nth)
    from j have j10: "j < 10" and jl: "j < length ?u" by simp_all
    with e have "?u ! j = ?u ! i" by simp
    with d jl i have "j = i" by (simp add: nth_eq_iff_index_eq)
    with j10 i show False by simp
  qed
  with sub show "?u ! i \<notin> set (map r_crop (get_recommendations predictor df request))"
    by blast
qed

text \<open>The theorem on a dataset of eleven crops: the eleventh, Barley, is not recommended.\<close>

theorem only_first_ten_crops_scored_witness:
  "(10 :: nat) \<le> 10 \<and> 10 < length (unique (map Crop eleven_crops))
   \<and> unique (map Crop eleven_crops) ! 10 = ''Barley''
   \<and> ''Barley'' \<notin> set (map r_crop
         (get_recommendations no_models eleven_crops (example_request 100 None)))"
proof -
  have l: "10 < length (unique (map Crop eleven_crops))"
    and b: "unique (map Crop eleven_crops) ! 10 = ''Barley''"
    by code_simp+
  show ?thesis
    using only_first_ten_crops_scored [of no_models eleven_crops "example_request 100 None"]
      l b
    by (metis order_refl)
qed

end
